theory Spec2Isabelle
  imports Main "HOL-Library.Word"
begin

section \<open>The JNI wrapper around the voice-activity detector\<close>

text \<open>
  The source is \<^verbatim>\<open>org_jitsi_webrtcvadwrapper_WebRTCVad.cpp\<close>: four native methods of the
  Java class \<^verbatim>\<open>WebRTCVad\<close> and two accessors of its field \<^verbatim>\<open>nativeVadPointer\<close>.
  The methods call the detector library through \<^verbatim>\<open>fvad.h\<close>; the library itself is
  not part of the source set, so the wrapper is modelled over an arbitrary library.
\<close>

subsection \<open>Data\<close>

type_synonym jint = "32 word"
type_synonym jlong = "64 word"
type_synonym int16_t = "16 word"

text \<open>A reference to a Java object. A \<^verbatim>\<open>Fvad*\<close> is stored in a \<^verbatim>\<open>jlong\<close> by
  \<^verbatim>\<open>reinterpret_cast\<close>, so a pointer is a 64-bit word and \<^verbatim>\<open>nullptr\<close> is 0.\<close>

type_synonym jobject = nat

text \<open>The outcomes the library reports through its \<^verbatim>\<open>int\<close> results, by name. The
  wrapper drops the status of the two setters and returns the result of
  \<^verbatim>\<open>fvad_process\<close> as it is, so their encoding as numbers plays no part.\<close>

datatype error = ConfigError | FrameSizeError | NotOpenError

text \<open>The functions of \<^verbatim>\<open>fvad.h\<close> that the wrapper calls, over the library's own
  memory \<open>'h\<close>. Each takes that memory and returns it updated.\<close>

record 'h fvad =
  fvad_new :: "'h \<Rightarrow> jlong \<times> 'h"
  fvad_free :: "'h \<Rightarrow> jlong \<Rightarrow> 'h"
  fvad_set_sample_rate :: "'h \<Rightarrow> jlong \<Rightarrow> jint \<Rightarrow> error option \<times> 'h"
  fvad_set_mode :: "'h \<Rightarrow> jlong \<Rightarrow> jint \<Rightarrow> error option \<times> 'h"
  fvad_process :: "'h \<Rightarrow> jlong \<Rightarrow> int16_t list \<Rightarrow> (error + bool) \<times> 'h"

text \<open>What the wrapper can see and change: the field \<^verbatim>\<open>nativeVadPointer\<close> of every
  \<^verbatim>\<open>WebRTCVad\<close> object (0 in an object that was never opened, as Java initialises
  it), and the library's memory.\<close>

record 'h world =
  nativeVadPointer :: "jobject \<Rightarrow> jlong"
  native :: 'h

subsection \<open>The accessors\<close>

text \<open>Both look the field up by name and type through JNI; the class is taken to
  declare it, so the lookup is a plain field access.\<close>

definition setPointerToVadObject :: "jobject \<Rightarrow> jlong \<Rightarrow> 'h world \<Rightarrow> 'h world" where
  "setPointerToVadObject thisObj vadPtr w =
     w\<lparr>nativeVadPointer := (nativeVadPointer w)(thisObj := vadPtr)\<rparr>"

definition getPointerToVadObject :: "jobject \<Rightarrow> 'h world \<Rightarrow> jlong" where
  "getPointerToVadObject thisObj w = nativeVadPointer w thisObj"

subsection \<open>The native methods\<close>

text \<open>\<^verbatim>\<open>nativeOpen\<close> returns \<^verbatim>\<open>void\<close>: the two status results are dropped.\<close>

definition nativeOpen :: "'h fvad \<Rightarrow> jobject \<Rightarrow> jint \<Rightarrow> jint \<Rightarrow> 'h world \<Rightarrow> 'h world" where
  "nativeOpen L thisObj sampleRate mode w =
     (let (vadPtr, h1) = fvad_new L (native w);
          (_, h2) = fvad_set_sample_rate L h1 vadPtr sampleRate;
          (_, h3) = fvad_set_mode L h2 vadPtr mode
      in setPointerToVadObject thisObj vadPtr (w\<lparr>native := h3\<rparr>))"

definition nativeClose :: "'h fvad \<Rightarrow> jobject \<Rightarrow> 'h world \<Rightarrow> 'h world" where
  "nativeClose L thisObj w =
     (let vadPtr = getPointerToVadObject thisObj w;
          h1 = fvad_free L (native w) vadPtr
      in setPointerToVadObject thisObj 0 (w\<lparr>native := h1\<rparr>))"

definition nativeIsOpen :: "jobject \<Rightarrow> 'h world \<Rightarrow> bool" where
  "nativeIsOpen thisObj w =
     (let vadPrt = getPointerToVadObject thisObj w
      in if vadPrt \<noteq> 0 then True else False)"

text \<open>The copy loop of \<^verbatim>\<open>nativeIsSpeech\<close>: \<^verbatim>\<open>audioSample[i] = javaArray[i]\<close> for
  \<open>i\<close> from 0 up to \<open>len\<close>. The assignment converts a \<^verbatim>\<open>jint\<close> to an
  \<^verbatim>\<open>int16_t\<close>, which keeps the low 16 bits.\<close>

function copy_samples :: "nat \<Rightarrow> nat \<Rightarrow> jint list \<Rightarrow> int16_t list \<Rightarrow> int16_t list" where
  "copy_samples i len javaArray audioSample =
     (if i < len
      then copy_samples (i + 1) len javaArray (audioSample[i := ucast (javaArray ! i)])
      else audioSample)"
  by pat_completeness auto
termination
  by (relation "measure (\<lambda>(i, len, javaArray, audioSample). len - i)") auto

declare copy_samples.simps [simp del]

text \<open>\<^verbatim>\<open>new int16_t[len]\<close> is written in full by the loop before it is read; the model
  starts it at zeros.\<close>

definition nativeIsSpeech ::
  "'h fvad \<Rightarrow> jobject \<Rightarrow> jint list \<Rightarrow> 'h world \<Rightarrow> (error + bool) \<times> 'h world" where
  "nativeIsSpeech L thisObj javaAudioSample w =
     (let len = length javaAudioSample;
          audioSample = copy_samples 0 len javaAudioSample (replicate len 0);
          vadPtr = getPointerToVadObject thisObj w;
          (result, h1) = fvad_process L (native w) vadPtr audioSample
      in (result, w\<lparr>native := h1\<rparr>))"

text \<open>A stream of frames classified one after the other on the same object.\<close>

fun isSpeech_all ::
  "'h fvad \<Rightarrow> jobject \<Rightarrow> jint list list \<Rightarrow> 'h world \<Rightarrow> (error + bool) list \<times> 'h world" where
  "isSpeech_all L thisObj [] w = ([], w)"
| "isSpeech_all L thisObj (frame # frames) w =
     (let (r, w1) = nativeIsSpeech L thisObj frame w;
          (rs, w2) = isSpeech_all L thisObj frames w1
      in (r # rs, w2))"

section \<open>The detector library\<close>

text \<open>
  The library behind \<^verbatim>\<open>fvad.h\<close> is described by the specification only. Its
  feature extraction and mixture-model test are left open there (their constants are
  to be calibrated), so they enter as parameters; the configuration checks, the frame
  check, the handle check and the hangover automaton are written out.
\<close>

subsection \<open>The hangover automaton\<close>

datatype hangover = SILENCE | SPEECH | HOLDING nat

text \<open>Modelled from the spec: the hangover smoother lives in the library, which is not
  in the source set. The transitions are those of section 4.2: SILENCE to SPEECH on a raw
  speech verdict; SPEECH to HOLDING(max) on a raw non-speech verdict; HOLDING(n) to
  HOLDING(n-1) on a raw non-speech verdict while n > 0 and to SPEECH on a raw speech
  verdict; HOLDING(0) to SILENCE. The first argument is max, the second the state, the
  third the raw verdict of the frame.\<close>

fun hangover_step :: "nat \<Rightarrow> hangover \<Rightarrow> bool \<Rightarrow> hangover" where
  "hangover_step hmax SILENCE v = (if v then SPEECH else SILENCE)"
| "hangover_step hmax SPEECH v = (if v then SPEECH else HOLDING hmax)"
| "hangover_step hmax (HOLDING n) v =
     (if v then SPEECH else if 0 < n then HOLDING (n - 1) else SILENCE)"

text \<open>Modelled from the spec: the smoother keeps the emitted decision at speech for
  the frames after the raw verdict dropped, so the decision is speech in every state but
  SILENCE.\<close>

fun emits :: "hangover \<Rightarrow> bool" where
  "emits SILENCE = False"
| "emits SPEECH = True"
| "emits (HOLDING n) = True"

text \<open>The decisions emitted for a sequence of raw verdicts, each read off the state
  reached by its frame.\<close>

fun emitted :: "nat \<Rightarrow> hangover \<Rightarrow> bool list \<Rightarrow> bool list" where
  "emitted hmax st [] = []"
| "emitted hmax st (v # vs) =
     emits (hangover_step hmax st v) # emitted hmax (hangover_step hmax st v) vs"

subsection \<open>Detectors and the library's memory\<close>

text \<open>Modelled from the spec: the Detector of section 3, with its internal state split
  into the rolling statistics \<open>'c\<close> (opaque) and the hangover state.\<close>

record 'c detector =
  sampleRate :: jint
  mode :: jint
  stats :: 'c
  hang :: hangover

text \<open>Modelled from the spec: the library's memory is not in the source set. Section 5:
  no state exists beyond the state of each instance, so the memory is the live detectors
  by address. The flag is raised when a non-null handle that is not live is released or
  used (a double release or a use after release, where C leaves the behaviour
  undefined); the specification has no word for that case.\<close>

record 'c natives =
  cells :: "jlong \<rightharpoonup> 'c detector"
  fault :: bool

text \<open>Modelled from the spec: what sections 4.2 and 9 leave open enters as parameters.
  These are the allocator (the address it returns for the live cells it sees, 0 when it
  fails), the configuration and statistics of a detector before it is configured, the
  raw verdict of a frame from sample rate, mode and statistics together with the
  statistics it leaves, and the hold length of each mode.\<close>

record 'c tuning =
  alloc :: "(jlong \<rightharpoonup> 'c detector) \<Rightarrow> jlong"
  fresh_rate :: jint
  fresh_mode :: jint
  fresh_stats :: 'c
  raw_verdict :: "jint \<Rightarrow> jint \<Rightarrow> 'c \<Rightarrow> int16_t list \<Rightarrow> bool \<times> 'c"
  hold_max :: "jint \<Rightarrow> nat"

text \<open>Modelled from the spec: the supported sample rates and modes of section 4.1, and the
  supported frame lengths of section 3, 10, 20 or 30 ms of audio at the sample rate.\<close>

definition valid_rate :: "jint \<Rightarrow> bool" where
  "valid_rate r \<longleftrightarrow> r = 8000 \<or> r = 16000 \<or> r = 32000 \<or> r = 48000"

definition valid_mode :: "jint \<Rightarrow> bool" where
  "valid_mode m \<longleftrightarrow> 0 \<le> sint m \<and> sint m \<le> 3"

definition valid_length :: "jint \<Rightarrow> nat \<Rightarrow> bool" where
  "valid_length r n \<longleftrightarrow>
     n * 1000 = 10 * unat r \<or> n * 1000 = 20 * unat r \<or> n * 1000 = 30 * unat r"

text \<open>Modelled from the spec: \<^verbatim>\<open>fvad_new\<close> is not in the source set. A new detector
  has its statistics and hangover state at their initial, non-speech values.\<close>

definition spec_new :: "'c tuning \<Rightarrow> 'c natives \<Rightarrow> jlong \<times> 'c natives" where
  "spec_new T h =
     (let p = alloc T (cells h)
      in if p = 0 then (0, h)
         else (p, h\<lparr>cells := (cells h)(p \<mapsto>
                 \<lparr>sampleRate = fresh_rate T, mode = fresh_mode T,
                  stats = fresh_stats T, hang = SILENCE\<rparr>)\<rparr>))"

text \<open>Modelled from the spec: \<^verbatim>\<open>fvad_free\<close> is not in the source set. It releases the
  detector; on the handle of a closed detector it is the safe no-op of section 4.1.\<close>

definition spec_free :: "'c natives \<Rightarrow> jlong \<Rightarrow> 'c natives" where
  "spec_free h p =
     (if p = 0 then h
      else case cells h p of
             None \<Rightarrow> h\<lparr>fault := True\<rparr>
           | Some d \<Rightarrow> h\<lparr>cells := (cells h)(p := None)\<rparr>)"

text \<open>Modelled from the spec: \<^verbatim>\<open>fvad_set_sample_rate\<close> and \<^verbatim>\<open>fvad_set_mode\<close> are not
  in the source set. They carry the validation of \<open>open\<close>: an unsupported value is a
  ConfigError and changes nothing.\<close>

definition spec_set_sample_rate ::
  "'c natives \<Rightarrow> jlong \<Rightarrow> jint \<Rightarrow> error option \<times> 'c natives" where
  "spec_set_sample_rate h p r =
     (if p = 0 then (Some NotOpenError, h)
      else case cells h p of
             None \<Rightarrow> (Some NotOpenError, h\<lparr>fault := True\<rparr>)
           | Some d \<Rightarrow>
               if valid_rate r
               then (None, h\<lparr>cells := (cells h)(p \<mapsto> d\<lparr>sampleRate := r\<rparr>)\<rparr>)
               else (Some ConfigError, h))"

definition spec_set_mode ::
  "'c natives \<Rightarrow> jlong \<Rightarrow> jint \<Rightarrow> error option \<times> 'c natives" where
  "spec_set_mode h p m =
     (if p = 0 then (Some NotOpenError, h)
      else case cells h p of
             None \<Rightarrow> (Some NotOpenError, h\<lparr>fault := True\<rparr>)
           | Some d \<Rightarrow>
               if valid_mode m
               then (None, h\<lparr>cells := (cells h)(p \<mapsto> d\<lparr>mode := m\<rparr>)\<rparr>)
               else (Some ConfigError, h))"

text \<open>Modelled from the spec: the Frame Classifier of section 4.2, a function of state
  and frame to new state and decision, is not in the source set. A frame whose length
  matches no supported duration at the detector's sample rate is a FrameSizeError and
  leaves the state as it is; otherwise the raw verdict (steps 1 to 5) passes through the
  hangover smoother (step 6), and statistics and hangover state are updated.\<close>

definition classify ::
  "'c tuning \<Rightarrow> 'c detector \<Rightarrow> int16_t list \<Rightarrow> (error + bool) \<times> 'c detector" where
  "classify T d frame =
     (if \<not> valid_length (sampleRate d) (length frame) then (Inl FrameSizeError, d)
      else
        (let (v, c) = raw_verdict T (sampleRate d) (mode d) (stats d) frame;
             st = hangover_step (hold_max T (mode d)) (hang d) v
         in (Inr (emits st), d\<lparr>stats := c, hang := st\<rparr>)))"

text \<open>Modelled from the spec: \<^verbatim>\<open>fvad_process\<close> is not in the source set. Section 4.2:
  NotOpenError when invoked on a closed or uninitialised detector; otherwise the frame
  classifier runs on the detector behind the handle.\<close>

definition spec_process ::
  "'c tuning \<Rightarrow> 'c natives \<Rightarrow> jlong \<Rightarrow> int16_t list \<Rightarrow> (error + bool) \<times> 'c natives" where
  "spec_process T h p frame =
     (if p = 0 then (Inl NotOpenError, h)
      else case cells h p of
             None \<Rightarrow> (Inl NotOpenError, h\<lparr>fault := True\<rparr>)
           | Some d \<Rightarrow>
               (let (result, d1) = classify T d frame
                in (result, h\<lparr>cells := (cells h)(p \<mapsto> d1)\<rparr>)))"

text \<open>Modelled from the spec: the five functions together, as the library the wrapper
  calls.\<close>

definition spec_fvad :: "'c tuning \<Rightarrow> 'c natives fvad" where
  "spec_fvad T =
     \<lparr>fvad_new = spec_new T, fvad_free = spec_free,
      fvad_set_sample_rate = spec_set_sample_rate, fvad_set_mode = spec_set_mode,
      fvad_process = spec_process T\<rparr>"

subsection \<open>Streams of frames on one detector\<close>

text \<open>The frame classifier on a stream of frames, threading the detector through.\<close>

fun classify_all ::
  "'c tuning \<Rightarrow> 'c detector \<Rightarrow> int16_t list list \<Rightarrow> (error + bool) list \<times> 'c detector" where
  "classify_all T d [] = ([], d)"
| "classify_all T d (frame # frames) =
     (let (r, d1) = classify T d frame;
          (rs, d2) = classify_all T d1 frames
      in (r # rs, d2))"

text \<open>The raw verdicts of a stream of frames at sample rate \<open>r\<close> and mode \<open>m\<close>, from the
  statistics \<open>c\<close> on, each frame judged on the statistics the frames before it left.\<close>

fun raw_verdicts :: "'c tuning \<Rightarrow> jint \<Rightarrow> jint \<Rightarrow> 'c \<Rightarrow> int16_t list list \<Rightarrow> bool list" where
  "raw_verdicts T r m c [] = []"
| "raw_verdicts T r m c (frame # frames) =
     (let (v, c1) = raw_verdict T r m c frame in v # raw_verdicts T r m c1 frames)"

text \<open>The detector that \<^verbatim>\<open>nativeOpen\<close> leaves behind with this library: a new detector
  on which the sample rate and the mode are set, each only if it is supported.\<close>

definition configured :: "'c tuning \<Rightarrow> jint \<Rightarrow> jint \<Rightarrow> 'c detector" where
  "configured T sr m =
     (let d0 = \<lparr>sampleRate = fresh_rate T, mode = fresh_mode T,
                stats = fresh_stats T, hang = SILENCE\<rparr>;
          d1 = (if valid_rate sr then d0\<lparr>sampleRate := sr\<rparr> else d0)
      in if valid_mode m then d1\<lparr>mode := m\<rparr> else d1)"

subsection \<open>A small instance\<close>

text \<open>An instance to run the definitions on: a memory of two cells, at addresses 1 and
  2; detectors that start at 8000 Hz in mode 0; a frame is raw speech when one of its
  samples is not zero; the hold length is 3 minus the mode.\<close>

definition toy :: "unit tuning" where
  "toy =
     \<lparr>alloc = (\<lambda>m. if m 1 = None then 1 else if m 2 = None then 2 else 0),
      fresh_rate = 8000, fresh_mode = 0, fresh_stats = (),
      raw_verdict = (\<lambda>r m c frame. (list_ex (\<lambda>x. x \<noteq> 0) frame, c)),
      hold_max = (\<lambda>m. nat (3 - sint m))\<rparr>"

text \<open>The world before anything was opened: every field is 0 and no detector is live.\<close>

definition world0 :: "unit natives world" where
  "world0 = \<lparr>nativeVadPointer = (\<lambda>thisObj. 0), native = \<lparr>cells = Map.empty, fault = False\<rparr>\<rparr>"

section \<open>Facts about the copy loop\<close>

lemma copy_samples_length:
  "length (copy_samples i len javaArray audioSample) = length audioSample"
proof (induction i len javaArray audioSample rule: copy_samples.induct)
  case (1 i len javaArray audioSample)
  show ?case
  proof (cases "i < len")
    case True
    with "1" show ?thesis by (subst copy_samples.simps) simp
  next
    case False
    then show ?thesis by (subst copy_samples.simps) simp
  qed
qed

lemma copy_samples_nth:
  "length audioSample = len \<Longrightarrow> k < len \<Longrightarrow>
   copy_samples i len javaArray audioSample ! k =
     (if i \<le> k then ucast (javaArray ! k) else audioSample ! k)"
proof (induction i len javaArray audioSample rule: copy_samples.induct)
  case (1 i len javaArray audioSample)
  show ?case
  proof (cases "i < len")
    case True
    have "copy_samples i len javaArray audioSample ! k =
          copy_samples (i + 1) len javaArray (audioSample[i := ucast (javaArray ! i)]) ! k"
      using True by (subst copy_samples.simps) simp
    also have "\<dots> = (if i + 1 \<le> k then ucast (javaArray ! k)
                     else (audioSample[i := ucast (javaArray ! i)]) ! k)"
      using "1.IH" [OF True] "1.prems" by simp
    also have "\<dots> = (if i \<le> k then ucast (javaArray ! k) else audioSample ! k)"
      using "1.prems" True by (cases "i = k") auto
    finally show ?thesis .
  next
    case False
    with "1.prems" show ?thesis by (subst copy_samples.simps) simp
  qed
qed

lemma copy_samples_map:
  "copy_samples 0 (length javaArray) javaArray (replicate (length javaArray) 0) =
     map ucast javaArray"
  by (rule nth_equalityI) (simp_all add: copy_samples_length copy_samples_nth)

section \<open>Facts about the wrapper, for every library\<close>

lemma sint_narrow:
  "sint (ucast (x :: jint) :: int16_t) = (sint x + 32768) mod 65536 - 32768"
proof -
  have "sint (ucast x :: int16_t) = signed_take_bit 15 (uint x)"
    by (simp add: signed_ucast_eq)
  also have "\<dots> = signed_take_bit 15 (signed_take_bit 31 (uint x))"
    by (simp add: signed_take_bit_signed_take_bit)
  also have "\<dots> = signed_take_bit 15 (sint x)"
    by (simp add: sint_uint)
  also have "\<dots> = (sint x + 32768) mod 65536 - 32768"
    by (simp add: signed_take_bit_eq_take_bit_shift take_bit_eq_mod)
  finally show ?thesis .
qed

lemma sint_narrow_in_range:
  "- 32768 \<le> sint (x :: jint) \<Longrightarrow> sint x \<le> 32767 \<Longrightarrow> sint (ucast x :: int16_t) = sint x"
  by (simp add: sint_narrow)

lemma nativeIsSpeech_frame:
  "nativeIsSpeech L thisObj javaArray w =
     (case fvad_process L (native w) (getPointerToVadObject thisObj w) (map ucast javaArray) of
        (result, h) \<Rightarrow> (result, w\<lparr>native := h\<rparr>))"
  by (simp add: nativeIsSpeech_def Let_def copy_samples_map)

lemma nativeIsSpeech_pointer:
  "nativeVadPointer (snd (nativeIsSpeech L thisObj javaArray w)) = nativeVadPointer w"
  by (simp add: nativeIsSpeech_frame split: prod.splits)

lemma isSpeech_all_pointer:
  "nativeVadPointer (snd (isSpeech_all L thisObj frames w)) = nativeVadPointer w"
proof (induction frames arbitrary: w)
  case Nil
  show ?case by simp
next
  case (Cons frame frames)
  obtain r w1 where s1: "nativeIsSpeech L thisObj frame w = (r, w1)"
    by (cases "nativeIsSpeech L thisObj frame w")
  obtain rs w2 where s2: "isSpeech_all L thisObj frames w1 = (rs, w2)"
    by (cases "isSpeech_all L thisObj frames w1")
  have "nativeVadPointer w2 = nativeVadPointer w1"
    using Cons.IH [of w1] s2 by simp
  moreover have "nativeVadPointer w1 = nativeVadPointer w"
    using nativeIsSpeech_pointer [of L thisObj frame w] s1 by simp
  ultimately show ?case using s1 s2 by simp
qed

lemma nativeOpen_pointer:
  "getPointerToVadObject thisObj (nativeOpen L thisObj sr m w) = fst (fvad_new L (native w))"
  by (simp add: nativeOpen_def getPointerToVadObject_def setPointerToVadObject_def
      split: prod.splits)

lemma nativeClose_pointer:
  "getPointerToVadObject thisObj (nativeClose L thisObj w) = 0"
  by (simp add: nativeClose_def getPointerToVadObject_def setPointerToVadObject_def Let_def)

section \<open>Evaluating the small instance\<close>

lemmas toy_simps =
  valid_rate_def valid_mode_def valid_length_def nativeIsOpen_def nativeOpen_def
  nativeClose_def nativeIsSpeech_frame getPointerToVadObject_def setPointerToVadObject_def
  spec_fvad_def spec_new_def spec_free_def spec_set_sample_rate_def spec_set_mode_def
  spec_process_def classify_def toy_def world0_def Let_def list_ex_iff

lemma toy_new: "fst (fvad_new (spec_fvad toy) (native world0)) = 1"
  by (simp add: spec_fvad_def spec_new_def toy_def world0_def)

section \<open>Opening\<close>

text \<open>
  C1, as the code has it. \<^verbatim>\<open>nativeOpen\<close> has no error result and checks neither
  argument: for every sample rate and every mode, supported or not, it stores the handle
  \<^verbatim>\<open>fvad_new\<close> returned, and the object is open afterwards exactly when that handle is
  not null. Whatever \<^verbatim>\<open>fvad_set_sample_rate\<close> and \<^verbatim>\<open>fvad_set_mode\<close> report is dropped.
\<close>

theorem nativeOpen_any_config:
  "nativeIsOpen thisObj (nativeOpen L thisObj sr m w) \<longleftrightarrow> fst (fvad_new L (native w)) \<noteq> 0"
  by (simp add: nativeIsOpen_def nativeOpen_pointer)

text \<open>
  C1 as stated fails: opened with the sample rate 12345 and the mode 7, both unsupported,
  the object is open, and the next frame of 80 zero samples is classified (as non-speech)
  by the detector left at its initial configuration.
\<close>

theorem nativeOpen_counterexample:
  "\<not> valid_rate 12345 \<and> \<not> valid_mode 7 \<and>
   nativeIsOpen 0 (nativeOpen (spec_fvad toy) 0 12345 7 world0) \<and>
   fst (nativeIsSpeech (spec_fvad toy) 0 (replicate 80 0)
          (nativeOpen (spec_fvad toy) 0 12345 7 world0)) = Inr False"
  by (simp add: toy_simps)

text \<open>
  C10. \<^verbatim>\<open>nativeOpen\<close> overwrites the stored handle whatever it was: afterwards the field
  holds the handle \<^verbatim>\<open>fvad_new\<close> returned, the object is open when that handle is not
  null, and the library's memory is the same whatever handle \<open>q\<close> the field held before:
  the old handle is not read, so it is not released.
\<close>

theorem nativeOpen_overwrites:
  "getPointerToVadObject thisObj (nativeOpen L thisObj sr m w) = fst (fvad_new L (native w))
   \<and> (fst (fvad_new L (native w)) \<noteq> 0 \<longrightarrow> nativeIsOpen thisObj (nativeOpen L thisObj sr m w))
   \<and> native (nativeOpen L thisObj sr m (setPointerToVadObject thisObj q w)) =
       native (nativeOpen L thisObj sr m w)"
  by (simp add: nativeIsOpen_def nativeOpen_pointer)
     (simp add: nativeOpen_def setPointerToVadObject_def split: prod.splits)

text \<open>Opening object 0 twice in the small instance: the second handle is 2, the object is
  open, and the detector at the first handle 1 is still live.\<close>

theorem nativeOpen_overwrites_witness:
  "fst (fvad_new (spec_fvad toy) (native (nativeOpen (spec_fvad toy) 0 8000 1 world0))) \<noteq> 0
   \<and> nativeIsOpen 0 (nativeOpen (spec_fvad toy) 0 16000 2 (nativeOpen (spec_fvad toy) 0 8000 1 world0))
   \<and> getPointerToVadObject 0
        (nativeOpen (spec_fvad toy) 0 16000 2 (nativeOpen (spec_fvad toy) 0 8000 1 world0)) = 2
   \<and> cells (native (nativeOpen (spec_fvad toy) 0 16000 2
                      (nativeOpen (spec_fvad toy) 0 8000 1 world0))) 1 \<noteq> None"
proof -
  have new: "fst (fvad_new (spec_fvad toy)
               (native (nativeOpen (spec_fvad toy) 0 8000 1 world0))) = 2"
    by (simp add: toy_simps)
  have live: "cells (native (nativeOpen (spec_fvad toy) 0 16000 2
                      (nativeOpen (spec_fvad toy) 0 8000 1 world0))) 1 \<noteq> None"
    by (simp add: toy_simps)
  show ?thesis
    using nativeOpen_overwrites [of 0 "spec_fvad toy" 16000 2
        "nativeOpen (spec_fvad toy) 0 8000 1 world0" 0] new live
    by simp
qed

section \<open>The life cycle\<close>

text \<open>
  C5. After an open whose allocation succeeded, \<^verbatim>\<open>nativeIsOpen\<close> is true, and stays
  true through any frames classified on the object; after \<^verbatim>\<open>nativeClose\<close> it is false,
  in every world; and it is true exactly when the stored handle is not null.
\<close>

theorem nativeIsOpen_lifecycle:
  "(fst (fvad_new L (native w)) \<noteq> 0 \<longrightarrow>
      nativeIsOpen thisObj (nativeOpen L thisObj sr m w) \<and>
      nativeIsOpen thisObj (snd (isSpeech_all L thisObj frames (nativeOpen L thisObj sr m w))))
   \<and> \<not> nativeIsOpen thisObj (nativeClose L thisObj w')
   \<and> (nativeIsOpen thisObj w' \<longleftrightarrow> getPointerToVadObject thisObj w' \<noteq> 0)"
  by (simp add: nativeIsOpen_def nativeClose_pointer)
     (simp add: getPointerToVadObject_def isSpeech_all_pointer
        nativeOpen_pointer [unfolded getPointerToVadObject_def])

theorem nativeIsOpen_lifecycle_witness:
  "fst (fvad_new (spec_fvad toy) (native world0)) \<noteq> 0
   \<and> nativeIsOpen 0 (snd (isSpeech_all (spec_fvad toy) 0 [replicate 80 7, replicate 80 0]
                             (nativeOpen (spec_fvad toy) 0 8000 1 world0)))
   \<and> \<not> nativeIsOpen 0 (nativeClose (spec_fvad toy) 0 (nativeOpen (spec_fvad toy) 0 8000 1 world0))"
  using nativeIsOpen_lifecycle [of "spec_fvad toy" world0 0 8000 1
      "[replicate 80 7, replicate 80 0]" "nativeOpen (spec_fvad toy) 0 8000 1 world0"]
  by (simp add: toy_new)

text \<open>
  C4. \<^verbatim>\<open>nativeClose\<close> leaves the stored handle null, so a second \<^verbatim>\<open>nativeClose\<close> hands
  \<^verbatim>\<open>fvad_free\<close> the null handle, never the handle the first call released, and changes
  nothing else. With a library whose \<^verbatim>\<open>fvad_free\<close> does nothing on the null handle, the
  second call is a no-op.
\<close>

theorem nativeClose_twice:
  "getPointerToVadObject thisObj (nativeClose L thisObj w) = 0
   \<and> nativeClose L thisObj (nativeClose L thisObj w) =
       (nativeClose L thisObj w)\<lparr>native := fvad_free L (native (nativeClose L thisObj w)) 0\<rparr>
   \<and> ((\<forall>h. fvad_free L h 0 = h) \<longrightarrow>
        nativeClose L thisObj (nativeClose L thisObj w) = nativeClose L thisObj w)"
  by (simp add: nativeClose_def getPointerToVadObject_def setPointerToVadObject_def Let_def)

text \<open>Open, close, close in the small instance: the second close changes nothing, no
  detector is left and the fault flag is down.\<close>

theorem nativeClose_twice_witness:
  "(\<forall>h. fvad_free (spec_fvad toy) h 0 = h)
   \<and> nativeClose (spec_fvad toy) 0
        (nativeClose (spec_fvad toy) 0 (nativeOpen (spec_fvad toy) 0 8000 1 world0)) =
      nativeClose (spec_fvad toy) 0 (nativeOpen (spec_fvad toy) 0 8000 1 world0)
   \<and> \<not> fault (native (nativeClose (spec_fvad toy) 0
                (nativeClose (spec_fvad toy) 0 (nativeOpen (spec_fvad toy) 0 8000 1 world0))))"
proof -
  have free0: "\<forall>h. fvad_free (spec_fvad toy) h 0 = h"
    by (simp add: spec_fvad_def spec_free_def)
  have nofault: "\<not> fault (native (nativeClose (spec_fvad toy) 0
                   (nativeOpen (spec_fvad toy) 0 8000 1 world0)))"
    by (simp add: toy_simps)
  show ?thesis
    using nativeClose_twice [of 0 "spec_fvad toy" "nativeOpen (spec_fvad toy) 0 8000 1 world0"]
      free0 nofault
    by simp
qed

section \<open>The samples handed to the library\<close>

text \<open>
  C9. \<^verbatim>\<open>nativeIsSpeech\<close> hands \<^verbatim>\<open>fvad_process\<close> a frame of the same length as the Java
  array, each sample the low 16 bits of the 32-bit one: read as signed numbers, sample
  \<open>x\<close> becomes \<open>(x + 32768) mod 65536 - 32768\<close>. No sample is rejected and none is
  clamped.
\<close>

theorem nativeIsSpeech_narrows:
  "nativeIsSpeech L thisObj javaArray w =
     (case fvad_process L (native w) (getPointerToVadObject thisObj w)
             (map ucast javaArray) of
        (result, h) \<Rightarrow> (result, w\<lparr>native := h\<rparr>))
   \<and> (\<forall>i < length javaArray.
        sint ((map ucast javaArray :: int16_t list) ! i) =
          (sint (javaArray ! i) + 32768) mod 65536 - 32768)"
  by (simp add: nativeIsSpeech_frame sint_narrow)

text \<open>40000 becomes -25536, -40000 becomes 25536, 5 stays and 32768 becomes -32768 (not
  32767); a frame of 80 samples 65536 is classified as the frame of zeros it becomes.\<close>

theorem nativeIsSpeech_narrows_witness:
  "(1 :: nat) < length [40000, - 40000, 5 :: jint]
   \<and> sint ((map ucast [40000, - 40000, 5 :: jint] :: int16_t list) ! 1) =
        (sint ([40000, - 40000, 5 :: jint] ! 1) + 32768) mod 65536 - 32768
   \<and> map sint (map ucast [40000, - 40000, 5, 32768 :: jint] :: int16_t list) =
        [- 25536, 25536, 5, - 32768]
   \<and> fst (nativeIsSpeech (spec_fvad toy) 0 (replicate 80 65536)
            (nativeOpen (spec_fvad toy) 0 8000 0 world0)) = Inr False"
proof -
  have "map sint (map ucast [40000, - 40000, 5, 32768 :: jint] :: int16_t list) =
        [- 25536, 25536, 5, - 32768]"
    by simp
  moreover have "fst (nativeIsSpeech (spec_fvad toy) 0 (replicate 80 65536)
            (nativeOpen (spec_fvad toy) 0 8000 0 world0)) = Inr False"
    by (simp add: toy_simps)
  ultimately show ?thesis
    using nativeIsSpeech_narrows [of "spec_fvad toy" 0 "[40000, - 40000, 5]" world0]
    by simp
qed

section \<open>Facts about the library model\<close>

lemma nativeIsOpen_iff: "nativeIsOpen thisObj w \<longleftrightarrow> nativeVadPointer w thisObj \<noteq> 0"
  by (simp add: nativeIsOpen_def getPointerToVadObject_def)

lemma spec_isSpeech:
  "nativeIsSpeech (spec_fvad T) thisObj javaArray w =
     (case spec_process T (native w) (nativeVadPointer w thisObj) (map ucast javaArray) of
        (result, h) \<Rightarrow> (result, w\<lparr>native := h\<rparr>))"
  by (simp add: nativeIsSpeech_frame spec_fvad_def getPointerToVadObject_def)

lemma spec_isSpeech_null:
  "nativeVadPointer w thisObj = 0 \<Longrightarrow>
   nativeIsSpeech (spec_fvad T) thisObj javaArray w = (Inl NotOpenError, w)"
  by (simp add: spec_isSpeech spec_process_def)

lemma spec_isSpeech_live:
  assumes "nativeVadPointer w thisObj = p" and "p \<noteq> 0" and "cells (native w) p = Some d"
  shows "nativeIsSpeech (spec_fvad T) thisObj javaArray w =
           (fst (classify T d (map ucast javaArray)),
            w\<lparr>native := (native w)\<lparr>cells := (cells (native w))(p \<mapsto>
                 snd (classify T d (map ucast javaArray)))\<rparr>\<rparr>)"
  using assms by (simp add: spec_isSpeech spec_process_def split: prod.splits)

lemma same_cell: "cells h p = Some d \<Longrightarrow> h\<lparr>cells := (cells h)(p \<mapsto> d)\<rparr> = h"
  by (simp add: map_upd_triv)

lemma same_native: "w\<lparr>native := native w\<rparr> = w"
  by simp

lemma spec_isSpeech_all_live:
  assumes "nativeVadPointer w thisObj = p" and "p \<noteq> 0" and "cells (native w) p = Some d"
  shows "isSpeech_all (spec_fvad T) thisObj frames w =
           (fst (classify_all T d (map (map ucast) frames)),
            w\<lparr>native := (native w)\<lparr>cells := (cells (native w))(p \<mapsto>
                 snd (classify_all T d (map (map ucast) frames)))\<rparr>\<rparr>)"
  using assms
proof (induction frames arbitrary: w d)
  case Nil
  have "w\<lparr>native := (native w)\<lparr>cells := (cells (native w))(p \<mapsto> d)\<rparr>\<rparr> = w"
    using Nil by (simp only: same_cell same_native)
  then show ?case
    by (simp only: isSpeech_all.simps classify_all.simps list.map fst_conv snd_conv)
next
  case (Cons frame frames)
  obtain r d1 where c1: "classify T d (map ucast frame) = (r, d1)"
    by (cases "classify T d (map ucast frame)")
  obtain rs d2 where c2: "classify_all T d1 (map (map ucast) frames) = (rs, d2)"
    by (cases "classify_all T d1 (map (map ucast) frames)")
  let ?w1 = "w\<lparr>native := (native w)\<lparr>cells := (cells (native w))(p \<mapsto> d1)\<rparr>\<rparr>"
  have step: "nativeIsSpeech (spec_fvad T) thisObj frame w = (r, ?w1)"
    using spec_isSpeech_live [OF Cons.prems, of T frame] by (simp add: c1)
  have "isSpeech_all (spec_fvad T) thisObj frames ?w1 =
           (fst (classify_all T d1 (map (map ucast) frames)),
            ?w1\<lparr>native := (native ?w1)\<lparr>cells := (cells (native ?w1))(p \<mapsto>
                 snd (classify_all T d1 (map (map ucast) frames)))\<rparr>\<rparr>)"
    using Cons.prems by (intro Cons.IH) simp_all
  then have rest: "isSpeech_all (spec_fvad T) thisObj frames ?w1 =
           (rs, w\<lparr>native := (native w)\<lparr>cells := (cells (native w))(p \<mapsto> d2)\<rparr>\<rparr>)"
    by (simp add: c2)
  have "isSpeech_all (spec_fvad T) thisObj (frame # frames) w =
          (r # rs, w\<lparr>native := (native w)\<lparr>cells := (cells (native w))(p \<mapsto> d2)\<rparr>\<rparr>)"
    by (simp add: step rest)
  moreover have "classify_all T d (map (map ucast) (frame # frames)) = (r # rs, d2)"
    by (simp add: c1 c2)
  ultimately show ?case by (simp only: fst_conv snd_conv)
qed

lemma spec_new_pointer: "fst (spec_new T h) = alloc T (cells h)"
  by (simp add: spec_new_def Let_def)

lemma spec_open:
  assumes "alloc T (cells (native w)) = p" and "p \<noteq> 0"
  shows "nativeOpen (spec_fvad T) thisObj sr m w =
           w\<lparr>nativeVadPointer := (nativeVadPointer w)(thisObj := p),
             native := (native w)\<lparr>cells := (cells (native w))(p \<mapsto> configured T sr m)\<rparr>\<rparr>"
  using assms
  by (simp add: nativeOpen_def spec_fvad_def spec_new_def spec_set_sample_rate_def
      spec_set_mode_def configured_def setPointerToVadObject_def Let_def)

lemma nativeOpen_other:
  "obj \<noteq> thisObj \<Longrightarrow>
   nativeVadPointer (nativeOpen L thisObj sr m w) obj = nativeVadPointer w obj"
  by (simp add: nativeOpen_def setPointerToVadObject_def split: prod.splits)

lemma emitted_speech: "emitted hmax st (replicate M True) = replicate M True"
proof (induction M arbitrary: st)
  case 0
  show ?case by simp
next
  case (Suc M)
  have "hangover_step hmax st True = SPEECH" by (cases st) simp_all
  then show ?case using Suc.IH [of SPEECH] by simp
qed

lemma emitted_dropout_from_speech:
  "emitted hmax SPEECH (replicate n True @ False # replicate M True) =
     replicate (n + 1 + M) True"
  by (induction n) (simp_all add: emitted_speech)

lemma emitted_dropout:
  assumes "0 < N"
  shows "emitted hmax st (replicate N True @ False # replicate M True) =
           replicate (N + 1 + M) True"
proof -
  obtain n where N: "N = Suc n" using assms by (cases N) simp_all
  have "hangover_step hmax st True = SPEECH" by (cases st) simp_all
  then show ?thesis
    using emitted_dropout_from_speech [of hmax n M] by (simp add: N)
qed

lemma classify_valid:
  assumes "valid_length (sampleRate d) (length frame)"
    and "raw_verdict T (sampleRate d) (mode d) (stats d) frame = (v, c)"
  shows "classify T d frame =
           (Inr (emits (hangover_step (hold_max T (mode d)) (hang d) v)),
            d\<lparr>stats := c, hang := hangover_step (hold_max T (mode d)) (hang d) v\<rparr>)"
  using assms by (simp add: classify_def Let_def)

lemma classify_all_emitted:
  assumes "\<forall>frame \<in> set fs. valid_length (sampleRate d) (length frame)"
  shows "fst (classify_all T d fs) =
           map Inr (emitted (hold_max T (mode d)) (hang d)
                      (raw_verdicts T (sampleRate d) (mode d) (stats d) fs))"
  using assms
proof (induction fs arbitrary: d)
  case Nil
  show ?case by simp
next
  case (Cons frame fs)
  obtain v c where raw: "raw_verdict T (sampleRate d) (mode d) (stats d) frame = (v, c)"
    by (cases "raw_verdict T (sampleRate d) (mode d) (stats d) frame")
  let ?st = "hangover_step (hold_max T (mode d)) (hang d) v"
  let ?d1 = "d\<lparr>stats := c, hang := ?st\<rparr>"
  have step: "classify T d frame = (Inr (emits ?st), ?d1)"
    using Cons.prems raw by (simp add: classify_valid)
  have "\<forall>frame \<in> set fs. valid_length (sampleRate ?d1) (length frame)"
    using Cons.prems by simp
  then have rest: "fst (classify_all T ?d1 fs) =
      map Inr (emitted (hold_max T (mode d)) ?st (raw_verdicts T (sampleRate d) (mode d) c fs))"
    using Cons.IH [of ?d1] by simp
  obtain rs d2 where run: "classify_all T ?d1 fs = (rs, d2)"
    by (cases "classify_all T ?d1 fs")
  show ?case
    using rest by (simp add: step raw run)
qed

lemma spec_open_run:
  assumes "nativeIsOpen thisObj (nativeOpen (spec_fvad T) thisObj sr m w)"
  shows "fst (isSpeech_all (spec_fvad T) thisObj frames (nativeOpen (spec_fvad T) thisObj sr m w)) =
           fst (classify_all T (configured T sr m) (map (map ucast) frames))"
proof -
  define p where "p = alloc T (cells (native w))"
  let ?w1 = "nativeOpen (spec_fvad T) thisObj sr m w"
  have ptr: "nativeVadPointer ?w1 thisObj = p"
    using nativeOpen_pointer [of thisObj "spec_fvad T" sr m w]
    by (simp add: p_def getPointerToVadObject_def spec_fvad_def spec_new_pointer)
  have p: "p \<noteq> 0"
    using assms ptr by (simp add: nativeIsOpen_iff)
  have cell: "cells (native ?w1) p = Some (configured T sr m)"
    using spec_open [of T w p thisObj sr m] p by (simp add: p_def)
  show ?thesis
    using spec_isSpeech_all_live [OF ptr p cell, of T frames] by simp
qed

lemma classify_one_world:
  assumes "a \<noteq> b"
    and "w2 = nativeOpen (spec_fvad T) b sr m (nativeOpen (spec_fvad T) a sr m w)"
    and "nativeIsOpen a w2" and "nativeIsOpen b w2"
    and "getPointerToVadObject a w2 \<noteq> getPointerToVadObject b w2"
  shows "fst (isSpeech_all (spec_fvad T) a frames w2) =
         fst (isSpeech_all (spec_fvad T) b frames (snd (isSpeech_all (spec_fvad T) a frames w2)))"
proof -
  let ?L = "spec_fvad T"
  define w1 where "w1 = nativeOpen ?L a sr m w"
  define p1 where "p1 = alloc T (cells (native w))"
  define p2 where "p2 = alloc T (cells (native w1))"
  define fs :: "int16_t list list" where "fs = map (map ucast) frames"
  have w2: "w2 = nativeOpen ?L b sr m w1"
    using assms(2) by (simp add: w1_def)
  have a1: "nativeVadPointer w1 a = p1"
    using nativeOpen_pointer [of a ?L sr m w]
    by (simp add: w1_def p1_def getPointerToVadObject_def spec_fvad_def spec_new_pointer)
  have a2: "nativeVadPointer w2 a = p1"
    using nativeOpen_other [of a b ?L sr m w1] assms(1) a1 by (simp add: w2)
  have b2: "nativeVadPointer w2 b = p2"
    using nativeOpen_pointer [of b ?L sr m w1]
    by (simp add: w2 p2_def getPointerToVadObject_def spec_fvad_def spec_new_pointer)
  have p1: "p1 \<noteq> 0"
    using assms(3) a2 by (simp add: nativeIsOpen_iff)
  have p2: "p2 \<noteq> 0"
    using assms(4) b2 by (simp add: nativeIsOpen_iff)
  have ne: "p1 \<noteq> p2"
    using assms(5) a2 b2 by (simp add: getPointerToVadObject_def)
  have c1: "cells (native w1) p1 = Some (configured T sr m)"
    using spec_open [of T w p1 a sr m] p1 by (simp add: w1_def p1_def)
  have w2': "w2 = w1\<lparr>nativeVadPointer := (nativeVadPointer w1)(b := p2),
             native := (native w1)\<lparr>cells := (cells (native w1))(p2 \<mapsto> configured T sr m)\<rparr>\<rparr>"
    using spec_open [of T w1 p2 b sr m] p2 by (simp add: w2 p2_def)
  have ca: "cells (native w2) p1 = Some (configured T sr m)"
    using c1 ne by (simp add: w2')
  have cb: "cells (native w2) p2 = Some (configured T sr m)"
    by (simp add: w2')
  obtain rs d where run: "classify_all T (configured T sr m) fs = (rs, d)"
    by (cases "classify_all T (configured T sr m) fs")
  define w3 where "w3 = w2\<lparr>native := (native w2)\<lparr>cells := (cells (native w2))(p1 \<mapsto> d)\<rparr>\<rparr>"
  have first: "isSpeech_all ?L a frames w2 = (rs, w3)"
    using spec_isSpeech_all_live [OF a2 p1 ca, of T frames] run
    by (simp add: fs_def w3_def)
  have b3: "nativeVadPointer w3 b = p2"
    using b2 by (simp add: w3_def)
  have cb3: "cells (native w3) p2 = Some (configured T sr m)"
    using cb ne by (simp add: w3_def)
  have second: "fst (isSpeech_all ?L b frames w3) = rs"
    using spec_isSpeech_all_live [OF b3 p2 cb3, of T frames] run
    by (simp add: fs_def)
  show ?thesis
    by (simp add: first second)
qed

section \<open>Classifying frames\<close>

text \<open>
  C2, against the library as the specification describes it. On an open detector (the
  stored handle is not null and a detector is live behind it), a frame whose length
  matches none of 10, 20 and 30 ms at the detector's sample rate makes
  \<^verbatim>\<open>nativeIsSpeech\<close> return FrameSizeError, no decision, and the world it returns is the
  world it was given: neither the field nor the detector has changed.
\<close>

theorem nativeIsSpeech_bad_frame:
  assumes "getPointerToVadObject thisObj w \<noteq> 0"
    and "cells (native w) (getPointerToVadObject thisObj w) = Some d"
    and "\<not> valid_length (sampleRate d) (length javaArray)"
  shows "nativeIsSpeech (spec_fvad T) thisObj javaArray w = (Inl FrameSizeError, w)"
proof -
  let ?p = "nativeVadPointer w thisObj"
  have c: "classify T d (map ucast javaArray) = (Inl FrameSizeError, d)"
    using assms(3) by (simp add: classify_def)
  have "nativeIsSpeech (spec_fvad T) thisObj javaArray w =
          (Inl FrameSizeError, w\<lparr>native := (native w)\<lparr>cells := (cells (native w))(?p \<mapsto> d)\<rparr>\<rparr>)"
    using spec_isSpeech_live [of w thisObj ?p d T javaArray] assms(1,2)
    by (simp add: c getPointerToVadObject_def)
  moreover have "(native w)\<lparr>cells := (cells (native w))(?p \<mapsto> d)\<rparr> = native w"
    using assms(2) by (simp add: same_cell getPointerToVadObject_def)
  ultimately show ?thesis by simp
qed

theorem nativeIsSpeech_bad_frame_witness:
  "getPointerToVadObject 0 (nativeOpen (spec_fvad toy) 0 16000 1 world0) \<noteq> 0
   \<and> cells (native (nativeOpen (spec_fvad toy) 0 16000 1 world0))
        (getPointerToVadObject 0 (nativeOpen (spec_fvad toy) 0 16000 1 world0)) =
       Some \<lparr>sampleRate = 16000, mode = 1, stats = (), hang = SILENCE\<rparr>
   \<and> \<not> valid_length
          (sampleRate \<lparr>sampleRate = 16000, mode = 1, stats = (), hang = SILENCE\<rparr>)
          (length (replicate 100 (3 :: jint)))
   \<and> nativeIsSpeech (spec_fvad toy) 0 (replicate 100 3)
        (nativeOpen (spec_fvad toy) 0 16000 1 world0) =
       (Inl FrameSizeError, nativeOpen (spec_fvad toy) 0 16000 1 world0)"
proof -
  let ?w = "nativeOpen (spec_fvad toy) 0 16000 1 world0"
  let ?d = "\<lparr>sampleRate = 16000, mode = 1, stats = (), hang = SILENCE\<rparr> :: unit detector"
  have h1: "getPointerToVadObject 0 ?w \<noteq> 0"
    by (simp add: toy_simps)
  have h2: "cells (native ?w) (getPointerToVadObject 0 ?w) = Some ?d"
    by (simp add: toy_simps)
  have h3: "\<not> valid_length (sampleRate ?d) (length (replicate 100 (3 :: jint)))"
    by (simp add: valid_length_def)
  show ?thesis
    using h1 h2 h3 nativeIsSpeech_bad_frame [OF h1 h2 h3, of toy] by simp
qed

text \<open>
  C3, against the library as the specification describes it. On an object that was never
  opened (the field is 0) and on an object that was closed, \<^verbatim>\<open>nativeIsSpeech\<close> returns
  NotOpenError and changes nothing: the wrapper hands the library the null handle, since
  \<^verbatim>\<open>nativeClose\<close> nulled the field, never the released one.
\<close>

theorem nativeIsSpeech_not_open:
  "(getPointerToVadObject thisObj w = 0 \<longrightarrow>
      nativeIsSpeech (spec_fvad T) thisObj javaArray w = (Inl NotOpenError, w))
   \<and> nativeIsSpeech (spec_fvad T) thisObj javaArray (nativeClose (spec_fvad T) thisObj w) =
       (Inl NotOpenError, nativeClose (spec_fvad T) thisObj w)"
proof -
  have "nativeVadPointer (nativeClose (spec_fvad T) thisObj w) thisObj = 0"
    using nativeClose_pointer [of thisObj "spec_fvad T" w]
    by (simp add: getPointerToVadObject_def)
  then show ?thesis
    by (simp add: spec_isSpeech_null getPointerToVadObject_def)
qed

theorem nativeIsSpeech_not_open_witness:
  "getPointerToVadObject 5 world0 = 0
   \<and> nativeIsSpeech (spec_fvad toy) 5 [1, 2, 3] world0 = (Inl NotOpenError, world0)
   \<and> fst (nativeIsSpeech (spec_fvad toy) 0 (replicate 80 1)
            (nativeClose (spec_fvad toy) 0 (nativeOpen (spec_fvad toy) 0 8000 0 world0))) =
       Inl NotOpenError
   \<and> \<not> fault (native (snd (nativeIsSpeech (spec_fvad toy) 0 (replicate 80 1)
            (nativeClose (spec_fvad toy) 0 (nativeOpen (spec_fvad toy) 0 8000 0 world0)))))"
proof -
  have h: "getPointerToVadObject 5 world0 = 0"
    by (simp add: getPointerToVadObject_def world0_def)
  have nofault: "\<not> fault (native (nativeClose (spec_fvad toy) 0
                    (nativeOpen (spec_fvad toy) 0 8000 0 world0)))"
    by (simp add: toy_simps)
  show ?thesis
    using h nofault
      nativeIsSpeech_not_open [of 5 world0 toy "[1, 2, 3]"]
      nativeIsSpeech_not_open [of 0 "nativeOpen (spec_fvad toy) 0 8000 0 world0" toy
        "replicate 80 1"]
    by simp
qed

text \<open>
  C6, against the library as the specification describes it. Two detectors opened with
  the same sample rate and mode and fed the same frames emit the same results: opened in
  two arbitrary worlds \<open>u\<close> and \<open>v\<close>, whatever happened there before; and opened as two
  objects of one world on distinct handles, the second fed after the first has consumed
  the whole stream.
\<close>

theorem classify_deterministic:
  "(nativeIsOpen a (nativeOpen (spec_fvad T) a sr m u) \<and>
    nativeIsOpen b (nativeOpen (spec_fvad T) b sr m v) \<longrightarrow>
      fst (isSpeech_all (spec_fvad T) a frames (nativeOpen (spec_fvad T) a sr m u)) =
      fst (isSpeech_all (spec_fvad T) b frames (nativeOpen (spec_fvad T) b sr m v)))
   \<and> (a \<noteq> b \<and>
       w2 = nativeOpen (spec_fvad T) b sr m (nativeOpen (spec_fvad T) a sr m w) \<and>
       nativeIsOpen a w2 \<and> nativeIsOpen b w2 \<and>
       getPointerToVadObject a w2 \<noteq> getPointerToVadObject b w2 \<longrightarrow>
         fst (isSpeech_all (spec_fvad T) a frames w2) =
         fst (isSpeech_all (spec_fvad T) b frames
                (snd (isSpeech_all (spec_fvad T) a frames w2))))"
proof (intro conjI impI)
  assume "nativeIsOpen a (nativeOpen (spec_fvad T) a sr m u) \<and>
          nativeIsOpen b (nativeOpen (spec_fvad T) b sr m v)"
  then show "fst (isSpeech_all (spec_fvad T) a frames (nativeOpen (spec_fvad T) a sr m u)) =
             fst (isSpeech_all (spec_fvad T) b frames (nativeOpen (spec_fvad T) b sr m v))"
    using spec_open_run [of a T sr m u frames] spec_open_run [of b T sr m v frames]
    by simp
next
  assume "a \<noteq> b \<and>
       w2 = nativeOpen (spec_fvad T) b sr m (nativeOpen (spec_fvad T) a sr m w) \<and>
       nativeIsOpen a w2 \<and> nativeIsOpen b w2 \<and>
       getPointerToVadObject a w2 \<noteq> getPointerToVadObject b w2"
  then show "fst (isSpeech_all (spec_fvad T) a frames w2) =
         fst (isSpeech_all (spec_fvad T) b frames
                (snd (isSpeech_all (spec_fvad T) a frames w2)))"
    using classify_one_world [of a b w2 T sr m w frames] by blast
qed

theorem classify_deterministic_witness:
  "(0 :: jobject) \<noteq> 1
   \<and> nativeIsOpen 0 (nativeOpen (spec_fvad toy) 1 16000 2
                        (nativeOpen (spec_fvad toy) 0 16000 2 world0))
   \<and> nativeIsOpen 1 (nativeOpen (spec_fvad toy) 1 16000 2
                        (nativeOpen (spec_fvad toy) 0 16000 2 world0))
   \<and> getPointerToVadObject 0 (nativeOpen (spec_fvad toy) 1 16000 2
                        (nativeOpen (spec_fvad toy) 0 16000 2 world0)) \<noteq>
       getPointerToVadObject 1 (nativeOpen (spec_fvad toy) 1 16000 2
                        (nativeOpen (spec_fvad toy) 0 16000 2 world0))
   \<and> fst (isSpeech_all (spec_fvad toy) 0 [replicate 160 9, replicate 160 0, replicate 100 1]
            (nativeOpen (spec_fvad toy) 1 16000 2
               (nativeOpen (spec_fvad toy) 0 16000 2 world0))) =
       fst (isSpeech_all (spec_fvad toy) 1 [replicate 160 9, replicate 160 0, replicate 100 1]
            (snd (isSpeech_all (spec_fvad toy) 0
                    [replicate 160 9, replicate 160 0, replicate 100 1]
                    (nativeOpen (spec_fvad toy) 1 16000 2
                       (nativeOpen (spec_fvad toy) 0 16000 2 world0)))))
   \<and> fst (isSpeech_all (spec_fvad toy) 0 [replicate 160 9, replicate 160 0, replicate 100 1]
            (nativeOpen (spec_fvad toy) 1 16000 2
               (nativeOpen (spec_fvad toy) 0 16000 2 world0))) =
       [Inr True, Inr True, Inl FrameSizeError]"
proof -
  let ?w2 = "nativeOpen (spec_fvad toy) 1 16000 2 (nativeOpen (spec_fvad toy) 0 16000 2 world0)"
  have h1: "(0 :: jobject) \<noteq> 1" by simp
  have h3: "nativeIsOpen 0 ?w2" by (simp add: toy_simps)
  have h4: "nativeIsOpen 1 ?w2" by (simp add: toy_simps)
  have h5: "getPointerToVadObject 0 ?w2 \<noteq> getPointerToVadObject 1 ?w2"
    by (simp add: toy_simps)
  have run: "fst (isSpeech_all (spec_fvad toy) 0
                    [replicate 160 9, replicate 160 0, replicate 100 1] ?w2) =
             [Inr True, Inr True, Inl FrameSizeError]"
    by (simp add: toy_simps)
  show ?thesis
    using h1 h3 h4 h5 run
      classify_deterministic [of 0 toy 16000 2 world0 1 world0
        "[replicate 160 9, replicate 160 0, replicate 100 1]" ?w2 "world0"]
    by simp
qed

text \<open>
  C7, against the library as the specification describes it. On an open detector, a
  stream of frames of supported length whose raw verdicts are speech \<open>N\<close> times
  (\<open>N > 0\<close>), then non-speech once, then speech \<open>M\<close> times, is answered with speech for
  every frame, the single non-speech one included, whatever the hold length of the mode
  and the state of the automaton before. The same holds of the automaton alone, started
  in SILENCE, and the automaton emits speech in every state HOLDING(n).
\<close>

theorem hangover_holds:
  "(getPointerToVadObject thisObj w \<noteq> 0 \<and>
    cells (native w) (getPointerToVadObject thisObj w) = Some d \<and>
    (\<forall>frame \<in> set frames. valid_length (sampleRate d) (length frame)) \<and>
    raw_verdicts T (sampleRate d) (mode d) (stats d) (map (map ucast) frames) =
      replicate N True @ False # replicate M True \<and>
    0 < N \<longrightarrow>
    fst (isSpeech_all (spec_fvad T) thisObj frames w) = replicate (N + 1 + M) (Inr True))
   \<and> (0 < N \<longrightarrow>
        emitted hmax SILENCE (replicate N True @ False # replicate M True) =
          replicate (N + 1 + M) True)
   \<and> emits (HOLDING n)"
proof -
  have "fst (isSpeech_all (spec_fvad T) thisObj frames w) = replicate (N + 1 + M) (Inr True)"
    if p: "getPointerToVadObject thisObj w \<noteq> 0"
      and c: "cells (native w) (getPointerToVadObject thisObj w) = Some d"
      and v: "\<forall>frame \<in> set frames. valid_length (sampleRate d) (length frame)"
      and r: "raw_verdicts T (sampleRate d) (mode d) (stats d) (map (map ucast) frames) =
                replicate N True @ False # replicate M True"
      and N: "0 < N"
  proof -
    let ?p = "nativeVadPointer w thisObj"
    have "fst (isSpeech_all (spec_fvad T) thisObj frames w) =
            fst (classify_all T d (map (map ucast) frames))"
      using spec_isSpeech_all_live [of w thisObj ?p d T frames] p c
      by (simp add: getPointerToVadObject_def)
    also have "\<dots> = map Inr (emitted (hold_max T (mode d)) (hang d)
                        (replicate N True @ False # replicate M True))"
      using classify_all_emitted [of "map (map ucast) frames" d T] v r by simp
    also have "\<dots> = replicate (N + 1 + M) (Inr True)"
      using emitted_dropout [OF N, of "hold_max T (mode d)" "hang d" M] by simp
    finally show ?thesis .
  qed
  moreover have "emitted hmax SILENCE (replicate N True @ False # replicate M True) =
          replicate (N + 1 + M) True" if "0 < N"
    using that by (rule emitted_dropout)
  ultimately show ?thesis by simp
qed

theorem hangover_holds_witness:
  "getPointerToVadObject 0 (nativeOpen (spec_fvad toy) 0 8000 0 world0) \<noteq> 0
   \<and> cells (native (nativeOpen (spec_fvad toy) 0 8000 0 world0))
        (getPointerToVadObject 0 (nativeOpen (spec_fvad toy) 0 8000 0 world0)) =
       Some \<lparr>sampleRate = 8000, mode = 0, stats = (), hang = SILENCE\<rparr>
   \<and> valid_length 8000 (length (replicate 80 (1 :: jint)))
   \<and> raw_verdicts toy 8000 0 ()
        (map (map ucast) [replicate 80 1, replicate 80 1, replicate 80 0, replicate 80 (1 :: jint)]) =
       replicate 2 True @ False # replicate 1 True
   \<and> fst (isSpeech_all (spec_fvad toy) 0
            [replicate 80 1, replicate 80 1, replicate 80 0, replicate 80 1]
            (nativeOpen (spec_fvad toy) 0 8000 0 world0)) =
       replicate (2 + 1 + 1) (Inr True)
   \<and> emitted 3 SILENCE (replicate 2 True @ False # replicate 1 True) =
       replicate (2 + 1 + 1) True"
proof -
  let ?w = "nativeOpen (spec_fvad toy) 0 8000 0 world0"
  let ?d = "\<lparr>sampleRate = 8000, mode = 0, stats = (), hang = SILENCE\<rparr> :: unit detector"
  let ?frames = "[replicate 80 1, replicate 80 1, replicate 80 0, replicate 80 (1 :: jint)]"
  have h1: "getPointerToVadObject 0 ?w \<noteq> 0"
    by (simp add: toy_simps)
  have h2: "cells (native ?w) (getPointerToVadObject 0 ?w) = Some ?d"
    by (simp add: toy_simps)
  have h3: "\<forall>frame \<in> set ?frames. valid_length (sampleRate ?d) (length frame)"
    by (simp add: valid_length_def)
  have h4: "raw_verdicts toy (sampleRate ?d) (mode ?d) (stats ?d) (map (map ucast) ?frames) =
              replicate 2 True @ False # replicate 1 True"
    by (simp add: toy_def list_ex_iff numeral_2_eq_2)
  have h5: "(0 :: nat) < 2" by simp
  show ?thesis
    using h1 h2 h3 h4
      hangover_holds [of 0 ?w ?d ?frames toy 2 1 3 0]
    by simp
qed

end
